theory Spec2Isabelle
  imports Main
begin

section \<open>cognito-fetch: a shallow embedding of \<open>src/lib/index.ts\<close>\<close>

text \<open>
  The repository is one async function, \<open>cognitoFetch(target, options)\<close>. It reads four
  environment variables, resolves a region and a credential pair, builds one request
  descriptor, optionally hands it to \<open>aws4.sign\<close>, passes it to \<open>fetch\<close> and returns
  \<open>res.json()\<close>.

  The model keeps the source's order. An optional JavaScript value (\<open>string | undefined\<close>)
  is an \<open>option\<close>, with \<open>None\<close> for \<open>undefined\<close>. The three collaborators that are not
  code of the repository (\<open>JSON.stringify\<close>, \<open>aws4.sign\<close>, \<open>fetch\<close> with the response's
  \<open>json()\<close>) are the fields of a \<open>host\<close> record, so every theorem holds for every
  behaviour they may have. A rejected promise or a thrown value is \<open>Inl\<close>, a fulfilled one
  is \<open>Inr\<close>. The calls made to \<open>aws4.sign\<close> and \<open>fetch\<close> are recorded, in order, with
  their arguments.
\<close>

subsection \<open>JavaScript operators on \<open>string | undefined\<close>\<close>

text \<open>A string is truthy unless it is empty; \<open>undefined\<close> is falsy.\<close>

definition truthy :: "string option \<Rightarrow> bool" where
  "truthy v = (case v of None \<Rightarrow> False | Some s \<Rightarrow> s \<noteq> [])"

text \<open>\<open>a || b\<close>: the left operand when it is truthy, otherwise the right operand as it is.\<close>

definition js_or :: "string option \<Rightarrow> string option \<Rightarrow> string option" where
  "js_or a b = (if truthy a then a else b)"

text \<open>A value inside a template literal, \<open>`${v}`\<close>: \<open>undefined\<close> prints as its name.\<close>

definition interpolate :: "string option \<Rightarrow> string" where
  "interpolate v = (case v of None \<Rightarrow> ''undefined'' | Some s \<Rightarrow> s)"

subsection \<open>Data\<close>

text \<open>\<open>interface CognitoFetchOptions\<close>; \<open>'b\<close> is the type of the body values.\<close>

record 'b CognitoFetchOptions =
  region :: "string option"
  accessKeyId :: "string option"
  secretAccessKey :: "string option"
  body :: 'b
  signed :: "bool option"

text \<open>The four variables that line 26 to 31 read from \<open>process.env\<close>.\<close>

record process_env =
  AWS_REGION :: "string option"
  AWS_DEFAULT_REGION :: "string option"
  AWS_ACCESS_KEY_ID :: "string option"
  AWS_SECRET_ACCESS_KEY :: "string option"

text \<open>The signal of a fresh \<open>AbortController\<close>; the function never aborts it.\<close>

datatype AbortSignal = AbortSignal (aborted: bool)

text \<open>
  The object literal \<open>requestOptions\<close> of lines 37 to 48. The headers are an association
  list in the order of the literal. \<open>req_region\<close>, \<open>req_method\<close> and \<open>req_body\<close>
  are its fields \<open>region\<close>, \<open>method\<close> and \<open>body\<close>.
\<close>

record request =
  signal :: AbortSignal
  service :: string
  req_region :: "string option"
  req_method :: string
  url :: string
  headers :: "(string \<times> string) list"
  req_body :: string

text \<open>The second argument of \<open>aws4.sign\<close>.\<close>

record credentials =
  cred_accessKeyId :: "string option"
  cred_secretAccessKey :: "string option"

text \<open>
  What \<open>fetch\<close> resolves to: a status, and the outcome of calling \<open>json()\<close> on it.
  \<open>'v\<close> is the type of deserialized values, \<open>'e\<close> the type of thrown values.
\<close>

record ('v, 'e) response =
  status :: int
  json :: "'e + 'v"

text \<open>
  The collaborators. The body ranges over the values that \<open>JSON.stringify\<close> turns into a
  string (serializable structured data), so \<open>JSON_stringify\<close> is a total function to the
  text. \<open>aws4.sign\<close> changes the descriptor in place or throws: it is a function to the
  changed descriptor. \<open>fetch\<close> resolves to a response or rejects.
\<close>

record ('b, 'v, 'e) host =
  JSON_stringify :: "'b \<Rightarrow> string"
  aws4_sign :: "request \<Rightarrow> credentials \<Rightarrow> 'e + request"
  fetch :: "string \<Rightarrow> request \<Rightarrow> 'e + ('v, 'e) response"

text \<open>A recorded call of a collaborator, and what one run of the function leaves.\<close>

datatype event = Sign request credentials | Fetch string request

record ('v, 'e) run =
  calls :: "event list"
  outcome :: "'e + 'v"

subsection \<open>The function\<close>

text \<open>Line 32: \<open>options.region || AWS_REGION || AWS_DEFAULT_REGION\<close>.\<close>

definition resolved_region :: "'b CognitoFetchOptions \<Rightarrow> process_env \<Rightarrow> string option" where
  "resolved_region options env =
     js_or (js_or (region options) (AWS_REGION env)) (AWS_DEFAULT_REGION env)"

text \<open>Line 33: \<open>options.accessKeyId || AWS_ACCESS_KEY_ID\<close>.\<close>

definition resolved_accessKeyId :: "'b CognitoFetchOptions \<Rightarrow> process_env \<Rightarrow> string option" where
  "resolved_accessKeyId options env = js_or (accessKeyId options) (AWS_ACCESS_KEY_ID env)"

text \<open>Line 34: \<open>options.secretAccessKey || AWS_SECRET_ACCESS_KEY\<close>.\<close>

definition resolved_secretAccessKey :: "'b CognitoFetchOptions \<Rightarrow> process_env \<Rightarrow> string option" where
  "resolved_secretAccessKey options env =
     js_or (secretAccessKey options) (AWS_SECRET_ACCESS_KEY env)"

text \<open>Line 35: the template literal of the URL.\<close>

definition cognito_url :: "string option \<Rightarrow> string" where
  "cognito_url r = ''https://cognito-idp.'' @ interpolate r @ ''.amazonaws.com/''"

text \<open>Lines 36 to 48: the descriptor.\<close>

definition requestOptions ::
  "('b, 'v, 'e) host \<Rightarrow> process_env \<Rightarrow> string \<Rightarrow> 'b CognitoFetchOptions \<Rightarrow> request" where
  "requestOptions h env target options =
     \<lparr> signal = AbortSignal False,
       service = ''cognito-idp'',
       req_region = resolved_region options env,
       req_method = ''POST'',
       url = cognito_url (resolved_region options env),
       headers = [(''x-amz-target'', target),
                  (''content-type'', ''application/x-amz-json-1.1'')],
       req_body = JSON_stringify h (body options) \<rparr>"

text \<open>The pair built at lines 51 to 54.\<close>

definition resolved_credentials :: "'b CognitoFetchOptions \<Rightarrow> process_env \<Rightarrow> credentials" where
  "resolved_credentials options env =
     \<lparr> cred_accessKeyId = resolved_accessKeyId options env,
       cred_secretAccessKey = resolved_secretAccessKey options env \<rparr>"

text \<open>
  Lines 57 and 58: \<open>await fetch(url, requestOptions)\<close>, then \<open>await res.json()\<close>.
  \<open>sofar\<close> holds the calls made before.
\<close>

definition dispatch ::
  "('b, 'v, 'e) host \<Rightarrow> event list \<Rightarrow> string \<Rightarrow> request \<Rightarrow> ('v, 'e) run" where
  "dispatch h sofar u req =
     (case fetch h u req of
        Inl e \<Rightarrow> \<lparr> calls = sofar @ [Fetch u req], outcome = Inl e \<rparr>
      | Inr res \<Rightarrow> \<lparr> calls = sofar @ [Fetch u req], outcome = json res \<rparr>)"

text \<open>
  The whole function. \<open>options.signed\<close> is truthy exactly when it is \<open>true\<close>. The first
  argument of \<open>fetch\<close> is the constant \<open>url\<close> of line 35, whatever \<open>aws4.sign\<close> did to
  the descriptor.
\<close>

definition cognitoFetch ::
  "('b, 'v, 'e) host \<Rightarrow> process_env \<Rightarrow> string \<Rightarrow> 'b CognitoFetchOptions \<Rightarrow> ('v, 'e) run" where
  "cognitoFetch h env target options =
     (let req = requestOptions h env target options;
          creds = resolved_credentials options env
      in if signed options = Some True
         then (case aws4_sign h req creds of
                 Inl e \<Rightarrow> \<lparr> calls = [Sign req creds], outcome = Inl e \<rparr>
               | Inr req' \<Rightarrow> dispatch h [Sign req creds] (url req) req')
         else dispatch h [] (url req) req)"

subsection \<open>Reading a run\<close>

text \<open>
  The arguments of the recorded calls of \<open>aws4.sign\<close>, and of the recorded calls of
  \<open>fetch\<close>, in order.
\<close>

fun sign_calls :: "event list \<Rightarrow> (request \<times> credentials) list" where
  "sign_calls [] = []"
| "sign_calls (Sign req c # es) = (req, c) # sign_calls es"
| "sign_calls (Fetch u req # es) = sign_calls es"

fun fetch_calls :: "event list \<Rightarrow> (string \<times> request) list" where
  "fetch_calls [] = []"
| "fetch_calls (Sign req c # es) = fetch_calls es"
| "fetch_calls (Fetch u req # es) = (u, req) # fetch_calls es"

subsection \<open>A host to run the model on\<close>

text \<open>
  Concrete collaborators, used only to evaluate the model on the inputs of the repository's
  tests. JSON values are trees; an object lists its properties in enumeration order. A number
  is an integer of magnitude below \<open>10^21\<close>, which JavaScript prints in plain decimal
  digits. \<open>stringify\<close> is \<open>JSON.stringify\<close> with one argument on such values: no
  whitespace, strings quoted with the escapes of ECMAScript's \<open>QuoteJSONString\<close>.
\<close>

datatype json = JNull | JBool bool | JNum int | JStr string
  | JArr "json list" | JObj "(string \<times> json) list"

fun digits :: "nat \<Rightarrow> string" where
  "digits n = (if n < 10 then [''0123456789'' ! n] else digits (n div 10) @ [''0123456789'' ! (n mod 10)])"

definition number_text :: "int \<Rightarrow> string" where
  "number_text i = (if i < 0 then CHR ''-'' # digits (nat (- i)) else digits (nat i))"

definition escape :: "char \<Rightarrow> string" where
  "escape c =
     (if c = CHR 0x22 \<or> c = CHR 0x5C then [CHR 0x5C, c]
      else if c = CHR 0x08 then [CHR 0x5C, CHR ''b'']
      else if c = CHR 0x09 then [CHR 0x5C, CHR ''t'']
      else if c = CHR 0x0A then [CHR 0x5C, CHR ''n'']
      else if c = CHR 0x0C then [CHR 0x5C, CHR ''f'']
      else if c = CHR 0x0D then [CHR 0x5C, CHR ''r'']
      else if (of_char c :: nat) < 32
        then [CHR 0x5C, CHR ''u'', CHR ''0'', CHR ''0'',
              ''0123456789abcdef'' ! (of_char c div 16), ''0123456789abcdef'' ! (of_char c mod 16)]
      else [c])"

definition quote :: "string \<Rightarrow> string" where
  "quote s = [CHR 0x22] @ concat (map escape s) @ [CHR 0x22]"

fun join :: "string list \<Rightarrow> string" where
  "join [] = []"
| "join [x] = x"
| "join (x # y # ys) = x @ '','' @ join (y # ys)"

fun stringify :: "json \<Rightarrow> string" where
  "stringify JNull = ''null''"
| "stringify (JBool b) = (if b then ''true'' else ''false'')"
| "stringify (JNum i) = number_text i"
| "stringify (JStr s) = quote s"
| "stringify (JArr xs) = ''['' @ join (map stringify xs) @ '']''"
| "stringify (JObj kvs) = ''{'' @ join (map (\<lambda>(k, v). quote k @ '':'' @ stringify v) kvs) @ ''}''"

text \<open>
  A stand-in for \<open>aws4.sign\<close>: it appends the three headers that the library adds, with
  placeholder values, and leaves the rest of the descriptor alone.
\<close>

definition stub_sign :: "request \<Rightarrow> credentials \<Rightarrow> string + request" where
  "stub_sign req c =
     Inr (req\<lparr> headers := headers req @
            [(''Host'', ''cognito-idp.'' @ interpolate (req_region req) @ ''.amazonaws.com''),
             (''X-Amz-Date'', ''20250101T000000Z''),
             (''Authorization'', ''AWS4-HMAC-SHA256 Credential='' @ interpolate (cred_accessKeyId c))] \<rparr>)"

text \<open>
  The mocks of the test file: \<open>createMockResponse(data, status)\<close> is a response whose
  \<open>json()\<close> resolves to \<open>data\<close>, and \<open>mockFetch\<close> answers every call with the
  result it was given.
\<close>

definition createMockResponse :: "json \<Rightarrow> int \<Rightarrow> string + (json, string) response" where
  "createMockResponse data st = Inr \<lparr> status = st, json = Inr data \<rparr>"

definition mockFetch ::
  "string + (json, string) response \<Rightarrow> string \<Rightarrow> request \<Rightarrow> string + (json, string) response" where
  "mockFetch result u req = result"

definition mock_host :: "string + (json, string) response \<Rightarrow> (json, json, string) host" where
  "mock_host result =
     \<lparr> JSON_stringify = stringify, aws4_sign = stub_sign, fetch = mockFetch result \<rparr>"

text \<open>Environments and options of the test file, and variants of them.\<close>

definition override_env :: process_env where
  "override_env =
     \<lparr> AWS_REGION = Some ''us-west-2'', AWS_DEFAULT_REGION = None,
       AWS_ACCESS_KEY_ID = Some ''AKIA_ENV'', AWS_SECRET_ACCESS_KEY = Some ''secret_env'' \<rparr>"

definition override_options :: "json CognitoFetchOptions" where
  "override_options =
     \<lparr> region = Some ''us-east-1'', accessKeyId = Some ''AKIA_PARAM'',
       secretAccessKey = Some ''secret_param'',
       body = JObj [(''UserPoolId'', JStr ''pool123'')], signed = Some True \<rparr>"

definition empty_options :: "json CognitoFetchOptions" where
  "empty_options =
     \<lparr> region = Some '''', accessKeyId = Some '''', secretAccessKey = Some '''',
       body = JObj [(''UserPoolId'', JStr ''pool123'')], signed = Some True \<rparr>"

definition unset_env :: process_env where
  "unset_env =
     \<lparr> AWS_REGION = None, AWS_DEFAULT_REGION = None,
       AWS_ACCESS_KEY_ID = None, AWS_SECRET_ACCESS_KEY = None \<rparr>"

definition error_response :: json where
  "error_response =
     JObj [(''__type'', JStr ''NotAuthorizedException''), (''message'', JStr ''Invalid credentials'')]"

definition unsigned_options :: "json CognitoFetchOptions" where
  "unsigned_options =
     \<lparr> region = Some ''us-east-1'', accessKeyId = Some ''AKIA123'',
       secretAccessKey = Some ''secret123'',
       body = JObj [(''ClientId'', JStr ''test-client'')], signed = Some False \<rparr>"

definition body_only_options :: "json CognitoFetchOptions" where
  "body_only_options =
     \<lparr> region = None, accessKeyId = None, secretAccessKey = None,
       body = JObj [(''ClientId'', JStr ''client123'')], signed = None \<rparr>"

definition fallback_env :: process_env where
  "fallback_env =
     \<lparr> AWS_REGION = None, AWS_DEFAULT_REGION = Some ''ap-southeast-1'',
       AWS_ACCESS_KEY_ID = Some ''AKIA_ENV'', AWS_SECRET_ACCESS_KEY = Some ''secret_env'' \<rparr>"

text \<open>
  Both region variables set, to different values (the first as in the test "uses AWS_REGION
  environment variable"), and the first one set to the empty string.
\<close>

definition both_regions_env :: process_env where
  "both_regions_env =
     \<lparr> AWS_REGION = Some ''eu-central-1'', AWS_DEFAULT_REGION = Some ''ap-southeast-1'',
       AWS_ACCESS_KEY_ID = Some ''AKIA_ENV'', AWS_SECRET_ACCESS_KEY = Some ''secret_env'' \<rparr>"

definition empty_region_env :: process_env where
  "empty_region_env =
     \<lparr> AWS_REGION = Some '''', AWS_DEFAULT_REGION = Some ''ap-southeast-1'',
       AWS_ACCESS_KEY_ID = None, AWS_SECRET_ACCESS_KEY = None \<rparr>"

subsection \<open>Helper lemmas\<close>

lemma calls_dispatch: "calls (dispatch h sofar u req) = sofar @ [Fetch u req]"
  by (simp add: dispatch_def split: sum.split)

lemma outcome_dispatch:
  "outcome (dispatch h sofar u req) = (case fetch h u req of Inl e \<Rightarrow> Inl e | Inr res \<Rightarrow> json res)"
  by (simp add: dispatch_def split: sum.split)

lemma url_requestOptions:
  "url (requestOptions h env target options) = cognito_url (resolved_region options env)"
  by (simp add: requestOptions_def)

lemma cognitoFetch_unsigned:
  "signed options \<noteq> Some True \<Longrightarrow>
   cognitoFetch h env target options =
     dispatch h [] (cognito_url (resolved_region options env)) (requestOptions h env target options)"
  by (simp add: cognitoFetch_def Let_def url_requestOptions)

lemma cognitoFetch_signed_ok:
  "signed options = Some True \<Longrightarrow>
   aws4_sign h (requestOptions h env target options) (resolved_credentials options env) = Inr req' \<Longrightarrow>
   cognitoFetch h env target options =
     dispatch h [Sign (requestOptions h env target options) (resolved_credentials options env)]
       (cognito_url (resolved_region options env)) req'"
  by (simp add: cognitoFetch_def Let_def url_requestOptions)

lemma cognitoFetch_signed_throws:
  "signed options = Some True \<Longrightarrow>
   aws4_sign h (requestOptions h env target options) (resolved_credentials options env) = Inl e \<Longrightarrow>
   cognitoFetch h env target options =
     \<lparr> calls = [Sign (requestOptions h env target options) (resolved_credentials options env)],
       outcome = Inl e \<rparr>"
  by (simp add: cognitoFetch_def Let_def)

lemma sign_calls_append: "sign_calls (xs @ ys) = sign_calls xs @ sign_calls ys"
  by (induction xs rule: sign_calls.induct) simp_all

lemma fetch_calls_append: "fetch_calls (xs @ ys) = fetch_calls xs @ fetch_calls ys"
  by (induction xs rule: fetch_calls.induct) simp_all

lemma sign_calls_cognitoFetch:
  "sign_calls (calls (cognitoFetch h env target options)) =
     (if signed options = Some True
      then [(requestOptions h env target options, resolved_credentials options env)] else [])"
  by (cases "aws4_sign h (requestOptions h env target options) (resolved_credentials options env)")
     (simp_all add: cognitoFetch_def Let_def calls_dispatch sign_calls_append)

lemma fetch_calls_cognitoFetch:
  "fetch_calls (calls (cognitoFetch h env target options)) =
     (if signed options = Some True
      then (case aws4_sign h (requestOptions h env target options) (resolved_credentials options env) of
              Inl e \<Rightarrow> []
            | Inr req' \<Rightarrow> [(cognito_url (resolved_region options env), req')])
      else [(cognito_url (resolved_region options env), requestOptions h env target options)])"
  by (cases "aws4_sign h (requestOptions h env target options) (resolved_credentials options env)")
     (simp_all add: cognitoFetch_def Let_def calls_dispatch fetch_calls_append url_requestOptions)

lemma fetched_outcome:
  assumes "(u, req) \<in> set (fetch_calls (calls (cognitoFetch h env target options)))"
  shows "outcome (cognitoFetch h env target options) =
           (case fetch h u req of Inl e \<Rightarrow> Inl e | Inr res \<Rightarrow> json res)"
proof (cases "signed options = Some True")
  case False
  with assms have "u = cognito_url (resolved_region options env)"
    and "req = requestOptions h env target options"
    by (simp_all add: fetch_calls_cognitoFetch)
  with False show ?thesis
    by (simp add: cognitoFetch_unsigned outcome_dispatch)
next
  case True
  show ?thesis
  proof (cases "aws4_sign h (requestOptions h env target options) (resolved_credentials options env)")
    case (Inl e)
    with True assms show ?thesis by (simp add: fetch_calls_cognitoFetch)
  next
    case (Inr req')
    with True assms have "u = cognito_url (resolved_region options env)" and "req = req'"
      by (simp_all add: fetch_calls_cognitoFetch)
    with True Inr show ?thesis
      by (simp add: cognitoFetch_signed_ok outcome_dispatch)
  qed
qed

lemma fetch_urls_cognitoFetch:
  "map fst (fetch_calls (calls (cognitoFetch h env target options))) =
     (if signed options = Some True \<and>
         isl (aws4_sign h (requestOptions h env target options) (resolved_credentials options env))
      then [] else [cognito_url (resolved_region options env)])"
  by (cases "aws4_sign h (requestOptions h env target options) (resolved_credentials options env)")
     (simp_all add: fetch_calls_cognitoFetch)

lemma failure_origin:
  assumes "outcome (cognitoFetch h env target options) = Inl e"
  shows "(signed options = Some True \<and>
          aws4_sign h (requestOptions h env target options) (resolved_credentials options env) = Inl e)
       \<or> (\<exists>u req. (u, req) \<in> set (fetch_calls (calls (cognitoFetch h env target options))) \<and>
             (fetch h u req = Inl e \<or> (\<exists>res. fetch h u req = Inr res \<and> json res = Inl e)))"
proof (cases "signed options = Some True \<and>
    isl (aws4_sign h (requestOptions h env target options) (resolved_credentials options env))")
  case True
  then obtain e' where
    thrown: "aws4_sign h (requestOptions h env target options) (resolved_credentials options env) = Inl e'"
    by (auto simp: isl_def)
  with True assms have "e' = e" by (simp add: cognitoFetch_signed_throws)
  with True thrown show ?thesis by simp
next
  case False
  have "\<exists>u req. fetch_calls (calls (cognitoFetch h env target options)) = [(u, req)]"
  proof (cases "signed options = Some True")
    case True
    with False obtain req' where
      "aws4_sign h (requestOptions h env target options) (resolved_credentials options env) = Inr req'"
      by (cases "aws4_sign h (requestOptions h env target options) (resolved_credentials options env)")
         simp_all
    with True show ?thesis by (simp add: fetch_calls_cognitoFetch)
  next
    case False
    then show ?thesis by (simp add: fetch_calls_cognitoFetch)
  qed
  then obtain u req where
    sent: "(u, req) \<in> set (fetch_calls (calls (cognitoFetch h env target options)))"
    by auto
  from fetched_outcome [OF sent] assms
  have "fetch h u req = Inl e \<or> (\<exists>res. fetch h u req = Inr res \<and> json res = Inl e)"
    by (cases "fetch h u req") simp_all
  with sent show ?thesis by blast
qed

section \<open>The claims\<close>

text \<open>
  \<^bold>\<open>C1\<close> (as amended). When \<open>options\<close> supplies a non-empty \<open>region\<close>, a non-empty
  \<open>accessKeyId\<close> and a non-empty \<open>secretAccessKey\<close>, the resolved values are those values
  for every state of the four environment variables, and they are the ones used: the
  descriptor's region and URL are built from the explicit region, every call of \<open>fetch\<close>
  gets that URL, and \<open>aws4.sign\<close>, when called, gets the explicit credential pair.
\<close>

theorem explicit_nonempty_values_override_env:
  assumes "region options = Some r" and "r \<noteq> []"
    and "accessKeyId options = Some a" and "a \<noteq> []"
    and "secretAccessKey options = Some s" and "s \<noteq> []"
  shows "resolved_region options env = Some r \<and>
         resolved_accessKeyId options env = Some a \<and>
         resolved_secretAccessKey options env = Some s \<and>
         req_region (requestOptions h env target options) = Some r \<and>
         url (requestOptions h env target options) = ''https://cognito-idp.'' @ r @ ''.amazonaws.com/'' \<and>
         sign_calls (calls (cognitoFetch h env target options)) =
           (if signed options = Some True
            then [(requestOptions h env target options,
                   \<lparr> cred_accessKeyId = Some a, cred_secretAccessKey = Some s \<rparr>)]
            else []) \<and>
         set (map fst (fetch_calls (calls (cognitoFetch h env target options))))
           \<subseteq> {''https://cognito-idp.'' @ r @ ''.amazonaws.com/''}"
proof -
  have reg: "resolved_region options env = Some r"
    using assms(1,2) by (simp add: resolved_region_def js_or_def truthy_def)
  have key: "resolved_accessKeyId options env = Some a"
    using assms(3,4) by (simp add: resolved_accessKeyId_def js_or_def truthy_def)
  have sec: "resolved_secretAccessKey options env = Some s"
    using assms(5,6) by (simp add: resolved_secretAccessKey_def js_or_def truthy_def)
  have u: "cognito_url (Some r) = ''https://cognito-idp.'' @ r @ ''.amazonaws.com/''"
    by (simp add: cognito_url_def interpolate_def)
  have d: "req_region (requestOptions h env target options) = Some r"
    by (simp add: requestOptions_def reg)
  have c: "resolved_credentials options env = \<lparr> cred_accessKeyId = Some a, cred_secretAccessKey = Some s \<rparr>"
    by (simp add: resolved_credentials_def key sec)
  have f: "set (map fst (fetch_calls (calls (cognitoFetch h env target options))))
           \<subseteq> {''https://cognito-idp.'' @ r @ ''.amazonaws.com/''}"
    unfolding fetch_urls_cognitoFetch reg u by simp
  show ?thesis
    using f by (simp add: reg key sec d sign_calls_cognitoFetch c url_requestOptions u)
qed

text \<open>
  The theorem at the test "parameters override environment variables": all three variables
  are set in the environment, and the explicit values win.
\<close>

theorem explicit_nonempty_values_override_env_witness:
  "resolved_region override_options override_env = Some ''us-east-1'' \<and>
   resolved_accessKeyId override_options override_env = Some ''AKIA_PARAM'' \<and>
   resolved_secretAccessKey override_options override_env = Some ''secret_param'' \<and>
   map snd (sign_calls (calls (cognitoFetch (mock_host (createMockResponse (JObj []) 200))
       override_env ''AWSCognitoIdentityProviderService.AdminGetUser'' override_options))) =
     [\<lparr> cred_accessKeyId = Some ''AKIA_PARAM'', cred_secretAccessKey = Some ''secret_param'' \<rparr>] \<and>
   map fst (fetch_calls (calls (cognitoFetch (mock_host (createMockResponse (JObj []) 200))
       override_env ''AWSCognitoIdentityProviderService.AdminGetUser'' override_options))) =
     [''https://cognito-idp.us-east-1.amazonaws.com/'']"
proof -
  have r: "region override_options = Some ''us-east-1''" and r': "''us-east-1'' \<noteq> []"
    and a: "accessKeyId override_options = Some ''AKIA_PARAM''" and a': "''AKIA_PARAM'' \<noteq> []"
    and s: "secretAccessKey override_options = Some ''secret_param''" and s': "''secret_param'' \<noteq> []"
    by (simp_all add: override_options_def)
  have sg: "signed override_options = Some True"
    by (simp add: override_options_def)
  have ok: "\<not> isl (aws4_sign (mock_host (createMockResponse (JObj []) 200)) req c)" for req c
    by (simp add: mock_host_def stub_sign_def)
  from explicit_nonempty_values_override_env [OF r r' a a' s s', of override_env
      "mock_host (createMockResponse (JObj []) 200)" "''AWSCognitoIdentityProviderService.AdminGetUser''"]
  show ?thesis
    using sg by (simp add: fetch_calls_cognitoFetch mock_host_def stub_sign_def cognito_url_def interpolate_def)
qed

text \<open>
  C1 as it is written, for every explicit value, fails on the empty string: with the same
  environment and \<open>region\<close>, \<open>accessKeyId\<close> and \<open>secretAccessKey\<close> all given as
  \<open>""\<close>, the environment's values are resolved and used.
\<close>

theorem explicit_empty_values_fall_back_to_env:
  "region empty_options = Some '''' \<and>
   accessKeyId empty_options = Some '''' \<and>
   secretAccessKey empty_options = Some '''' \<and>
   resolved_region empty_options override_env = Some ''us-west-2'' \<and>
   resolved_accessKeyId empty_options override_env = Some ''AKIA_ENV'' \<and>
   resolved_secretAccessKey empty_options override_env = Some ''secret_env'' \<and>
   resolved_region empty_options override_env \<noteq> region empty_options \<and>
   map snd (sign_calls (calls (cognitoFetch (mock_host (createMockResponse (JObj []) 200))
       override_env ''AWSCognitoIdentityProviderService.AdminGetUser'' empty_options))) =
     [\<lparr> cred_accessKeyId = Some ''AKIA_ENV'', cred_secretAccessKey = Some ''secret_env'' \<rparr>] \<and>
   map fst (fetch_calls (calls (cognitoFetch (mock_host (createMockResponse (JObj []) 200))
       override_env ''AWSCognitoIdentityProviderService.AdminGetUser'' empty_options))) =
     [''https://cognito-idp.us-west-2.amazonaws.com/'']"
  by (simp add: cognitoFetch_def Let_def dispatch_def requestOptions_def resolved_credentials_def
      resolved_region_def resolved_accessKeyId_def resolved_secretAccessKey_def cognito_url_def
      interpolate_def js_or_def truthy_def mock_host_def mockFetch_def createMockResponse_def
      stub_sign_def override_env_def empty_options_def)

text \<open>
  \<^bold>\<open>C2\<close>. For every target and every resolved region string \<open>r\<close>, the descriptor's URL
  is \<open>"https://cognito-idp." ++ r ++ ".amazonaws.com/"\<close>, with \<open>r\<close> as it is, and that
  string is the first argument of the call of \<open>fetch\<close>. The function calls \<open>fetch\<close>
  once, unless the call is signed and \<open>aws4.sign\<close> throws.
\<close>

theorem url_is_template_at_region:
  assumes "resolved_region options env = Some r"
  shows "url (requestOptions h env target options) = ''https://cognito-idp.'' @ r @ ''.amazonaws.com/'' \<and>
         map fst (fetch_calls (calls (cognitoFetch h env target options))) =
           (if signed options = Some True \<and>
               isl (aws4_sign h (requestOptions h env target options) (resolved_credentials options env))
            then [] else [''https://cognito-idp.'' @ r @ ''.amazonaws.com/''])"
proof -
  have u: "cognito_url (Some r) = ''https://cognito-idp.'' @ r @ ''.amazonaws.com/''"
    by (simp add: cognito_url_def interpolate_def)
  show ?thesis
    unfolding fetch_urls_cognitoFetch url_requestOptions assms u by simp
qed

text \<open>
  The theorem at the test "falls back to AWS_DEFAULT_REGION when AWS_REGION is not set".
\<close>

theorem url_is_template_at_region_witness:
  "resolved_region body_only_options fallback_env = Some ''ap-southeast-1'' \<and>
   map fst (fetch_calls (calls (cognitoFetch (mock_host (createMockResponse (JObj []) 200))
       fallback_env ''AWSCognitoIdentityProviderService.InitiateAuth'' body_only_options))) =
     [''https://cognito-idp.ap-southeast-1.amazonaws.com/'']"
proof -
  have r: "resolved_region body_only_options fallback_env = Some ''ap-southeast-1''"
    by (simp add: resolved_region_def js_or_def truthy_def body_only_options_def fallback_env_def)
  have u: "signed body_only_options \<noteq> Some True"
    by (simp add: body_only_options_def)
  from url_is_template_at_region [OF r, of "mock_host (createMockResponse (JObj []) 200)"
      "''AWSCognitoIdentityProviderService.InitiateAuth''"] r u
  show ?thesis by simp
qed

text \<open>
  \<^bold>\<open>C3\<close>. When \<open>options\<close> gives no region and no credentials, resolution falls back to
  the environment. The first region variable comes first: when \<open>AWS_REGION\<close> is set to a
  non-empty string, the region is that string, whatever \<open>AWS_DEFAULT_REGION\<close> holds. When
  \<open>AWS_REGION\<close> is unset or empty, the region is \<open>AWS_DEFAULT_REGION\<close>. Each key is its
  one environment variable. When the environment gives nothing either, the resolved value is
  \<open>undefined\<close>. Resolution raises nothing: the three values are plain optional strings,
  and the run goes on to call a collaborator.
\<close>

theorem absent_values_fall_back_to_env:
  assumes "region options = None" and "accessKeyId options = None"
    and "secretAccessKey options = None"
  shows "(\<forall>r. AWS_REGION env = Some r \<and> r \<noteq> [] \<longrightarrow>
            resolved_region options env = Some r) \<and>
         (AWS_REGION env = None \<or> AWS_REGION env = Some [] \<longrightarrow>
            resolved_region options env = AWS_DEFAULT_REGION env) \<and>
         resolved_region options env =
           (if truthy (AWS_REGION env) then AWS_REGION env else AWS_DEFAULT_REGION env) \<and>
         resolved_accessKeyId options env = AWS_ACCESS_KEY_ID env \<and>
         resolved_secretAccessKey options env = AWS_SECRET_ACCESS_KEY env \<and>
         (AWS_REGION env = None \<and> AWS_DEFAULT_REGION env = None \<longrightarrow>
            resolved_region options env = None) \<and>
         (AWS_ACCESS_KEY_ID env = None \<longrightarrow> resolved_accessKeyId options env = None) \<and>
         (AWS_SECRET_ACCESS_KEY env = None \<longrightarrow> resolved_secretAccessKey options env = None) \<and>
         calls (cognitoFetch h env target options) \<noteq> []"
proof -
  have first: "resolved_region options env = Some r"
    if "AWS_REGION env = Some r" and "r \<noteq> []" for r
    using assms(1) that by (simp add: resolved_region_def js_or_def truthy_def)
  have second: "resolved_region options env = AWS_DEFAULT_REGION env"
    if "AWS_REGION env = None \<or> AWS_REGION env = Some []"
    using assms(1) that by (auto simp: resolved_region_def js_or_def truthy_def)
  have rest: "resolved_region options env =
           (if truthy (AWS_REGION env) then AWS_REGION env else AWS_DEFAULT_REGION env) \<and>
         resolved_accessKeyId options env = AWS_ACCESS_KEY_ID env \<and>
         resolved_secretAccessKey options env = AWS_SECRET_ACCESS_KEY env"
    using assms
    by (simp add: resolved_region_def resolved_accessKeyId_def resolved_secretAccessKey_def
        js_or_def truthy_def)
  have goes_on: "calls (cognitoFetch h env target options) \<noteq> []"
    by (cases "aws4_sign h (requestOptions h env target options) (resolved_credentials options env)")
       (simp_all add: cognitoFetch_def Let_def calls_dispatch)
  from first second rest goes_on show ?thesis
    by simp
qed

text \<open>
  The theorem at four environments: both region variables set, where the first one is used
  and the request goes to it; only the second set; the first set to the empty string; and
  nothing set, where the call still completes.
\<close>

theorem absent_values_fall_back_to_env_witness:
  "AWS_REGION both_regions_env = Some ''eu-central-1'' \<and>
   AWS_DEFAULT_REGION both_regions_env = Some ''ap-southeast-1'' \<and>
   resolved_region body_only_options both_regions_env = Some ''eu-central-1'' \<and>
   map fst (fetch_calls (calls (cognitoFetch (mock_host (createMockResponse (JObj []) 200))
       both_regions_env ''AWSCognitoIdentityProviderService.InitiateAuth'' body_only_options))) =
     [''https://cognito-idp.eu-central-1.amazonaws.com/''] \<and>
   resolved_region body_only_options fallback_env = Some ''ap-southeast-1'' \<and>
   resolved_accessKeyId body_only_options fallback_env = Some ''AKIA_ENV'' \<and>
   resolved_secretAccessKey body_only_options fallback_env = Some ''secret_env'' \<and>
   AWS_REGION empty_region_env = Some '''' \<and>
   resolved_region body_only_options empty_region_env = Some ''ap-southeast-1'' \<and>
   resolved_region body_only_options unset_env = None \<and>
   resolved_accessKeyId body_only_options unset_env = None \<and>
   resolved_secretAccessKey body_only_options unset_env = None \<and>
   outcome (cognitoFetch (mock_host (createMockResponse (JObj []) 200))
       unset_env ''AWSCognitoIdentityProviderService.InitiateAuth'' body_only_options) = Inr (JObj [])"
proof -
  let ?h = "mock_host (createMockResponse (JObj []) 200)"
  let ?t = "''AWSCognitoIdentityProviderService.InitiateAuth''"
  have absent: "region body_only_options = None" "accessKeyId body_only_options = None"
    "secretAccessKey body_only_options = None"
    by (simp_all add: body_only_options_def)
  have unsigned: "signed body_only_options \<noteq> Some True"
    by (simp add: body_only_options_def)
  have vars: "AWS_REGION both_regions_env = Some ''eu-central-1''"
    "AWS_DEFAULT_REGION both_regions_env = Some ''ap-southeast-1''"
    by (simp_all add: both_regions_env_def)
  have first: "resolved_region body_only_options both_regions_env = Some ''eu-central-1''"
    using absent_values_fall_back_to_env [OF absent, of both_regions_env ?h ?t] vars by simp
  have sent: "map fst (fetch_calls (calls (cognitoFetch ?h both_regions_env ?t body_only_options))) =
     [''https://cognito-idp.eu-central-1.amazonaws.com/'']"
    using unsigned by (simp add: fetch_urls_cognitoFetch first cognito_url_def interpolate_def)
  have run: "outcome (cognitoFetch ?h unset_env ?t body_only_options) = Inr (JObj [])"
    by (simp add: cognitoFetch_def Let_def dispatch_def mock_host_def mockFetch_def
        createMockResponse_def body_only_options_def)
  from absent_values_fall_back_to_env [OF absent, of fallback_env ?h ?t]
    absent_values_fall_back_to_env [OF absent, of empty_region_env ?h ?t]
    absent_values_fall_back_to_env [OF absent, of unset_env ?h ?t]
    vars first sent run
  show ?thesis
    by (simp add: fallback_env_def empty_region_env_def unset_env_def truthy_def)
qed



text \<open>
  \<^bold>\<open>C5\<close>. When \<open>options.signed\<close> is absent or \<open>false\<close>, \<open>aws4.sign\<close> is not
  called, the only call is the one of \<open>fetch\<close> with the descriptor as built, and its
  headers are exactly \<open>x-amz-target\<close> and \<open>content-type\<close>, for every \<open>options\<close> and
  every environment, with credentials or without.
\<close>

theorem unsigned_call_never_signs:
  assumes "signed options = None \<or> signed options = Some False"
  shows "sign_calls (calls (cognitoFetch h env target options)) = [] \<and>
         calls (cognitoFetch h env target options) =
           [Fetch (cognito_url (resolved_region options env)) (requestOptions h env target options)] \<and>
         headers (requestOptions h env target options) =
           [(''x-amz-target'', target), (''content-type'', ''application/x-amz-json-1.1'')]"
proof -
  from assms have u: "signed options \<noteq> Some True" by auto
  then show ?thesis
    by (simp add: sign_calls_cognitoFetch cognitoFetch_unsigned calls_dispatch requestOptions_def)
qed

text \<open>
  The theorem at the test "handles unsigned request", which supplies credentials and
  \<open>signed: false\<close>, in an environment that holds credentials too.
\<close>

theorem unsigned_call_never_signs_witness:
  "sign_calls (calls (cognitoFetch (mock_host (createMockResponse (JObj []) 200))
       override_env ''AWSCognitoIdentityProviderService.InitiateAuth'' unsigned_options)) = [] \<and>
   map (\<lambda>call. headers (snd call)) (fetch_calls (calls (cognitoFetch (mock_host (createMockResponse (JObj []) 200))
       override_env ''AWSCognitoIdentityProviderService.InitiateAuth'' unsigned_options))) =
     [[(''x-amz-target'', ''AWSCognitoIdentityProviderService.InitiateAuth''),
       (''content-type'', ''application/x-amz-json-1.1'')]]"
proof -
  have u: "signed unsigned_options = None \<or> signed unsigned_options = Some False"
    by (simp add: unsigned_options_def)
  from unsigned_call_never_signs [OF u, of "mock_host (createMockResponse (JObj []) 200)"
      override_env "''AWSCognitoIdentityProviderService.InitiateAuth''"]
  show ?thesis by simp
qed

text \<open>
  \<^bold>\<open>C6\<close>. When \<open>options.signed\<close> is \<open>true\<close>, \<open>aws4.sign\<close> is called exactly once, with
  the descriptor as built (its headers are \<open>x-amz-target\<close> and \<open>content-type\<close>) and the
  resolved credential pair. When it returns, the descriptor it leaves is the one handed to
  \<open>fetch\<close>, right after; the headers it added to the two of the construction are there.
\<close>

theorem signed_call_signs_once:
  assumes "signed options = Some True"
  shows "sign_calls (calls (cognitoFetch h env target options)) =
           [(requestOptions h env target options, resolved_credentials options env)] \<and>
         headers (requestOptions h env target options) =
           [(''x-amz-target'', target), (''content-type'', ''application/x-amz-json-1.1'')] \<and>
         resolved_credentials options env =
           \<lparr> cred_accessKeyId = resolved_accessKeyId options env,
             cred_secretAccessKey = resolved_secretAccessKey options env \<rparr> \<and>
         (\<forall>req'. aws4_sign h (requestOptions h env target options)
                    (resolved_credentials options env) = Inr req' \<longrightarrow>
            calls (cognitoFetch h env target options) =
              [Sign (requestOptions h env target options) (resolved_credentials options env),
               Fetch (cognito_url (resolved_region options env)) req']) \<and>
         (\<forall>req' added.
            aws4_sign h (requestOptions h env target options)
              (resolved_credentials options env) = Inr req' \<and>
            headers req' = headers (requestOptions h env target options) @ added \<longrightarrow>
            map (\<lambda>call. headers (snd call))
              (fetch_calls (calls (cognitoFetch h env target options))) =
              [[(''x-amz-target'', target), (''content-type'', ''application/x-amz-json-1.1'')]
               @ added])"
proof -
  have once: "sign_calls (calls (cognitoFetch h env target options)) =
           [(requestOptions h env target options, resolved_credentials options env)]"
    using assms by (simp add: sign_calls_cognitoFetch)
  have two: "headers (requestOptions h env target options) =
           [(''x-amz-target'', target), (''content-type'', ''application/x-amz-json-1.1'')]"
    by (simp add: requestOptions_def)
  have sent: "calls (cognitoFetch h env target options) =
              [Sign (requestOptions h env target options) (resolved_credentials options env),
               Fetch (cognito_url (resolved_region options env)) req']"
    if "aws4_sign h (requestOptions h env target options) (resolved_credentials options env) = Inr req'"
    for req'
    using assms that by (simp add: cognitoFetch_signed_ok calls_dispatch)
  have carried: "map (\<lambda>call. headers (snd call))
              (fetch_calls (calls (cognitoFetch h env target options))) =
              [[(''x-amz-target'', target), (''content-type'', ''application/x-amz-json-1.1'')]
               @ added]"
    if "aws4_sign h (requestOptions h env target options) (resolved_credentials options env) = Inr req'"
      and "headers req' = headers (requestOptions h env target options) @ added"
    for req' added
    using that two by (simp add: sent)
  from once two sent carried show ?thesis
    by (simp add: resolved_credentials_def)
qed

text \<open>
  The theorem at the signed call of the test "parameters override environment variables":
  the transport sees the two headers of the construction and the three the signer appended.
\<close>

theorem signed_call_signs_once_witness:
  "map snd (sign_calls (calls (cognitoFetch (mock_host (createMockResponse (JObj []) 200))
       override_env ''AWSCognitoIdentityProviderService.AdminGetUser'' override_options))) =
     [\<lparr> cred_accessKeyId = Some ''AKIA_PARAM'', cred_secretAccessKey = Some ''secret_param'' \<rparr>] \<and>
   map (\<lambda>call. headers (snd call)) (fetch_calls (calls (cognitoFetch
       (mock_host (createMockResponse (JObj []) 200))
       override_env ''AWSCognitoIdentityProviderService.AdminGetUser'' override_options))) =
     [[(''x-amz-target'', ''AWSCognitoIdentityProviderService.AdminGetUser''),
       (''content-type'', ''application/x-amz-json-1.1''),
       (''Host'', ''cognito-idp.us-east-1.amazonaws.com''),
       (''X-Amz-Date'', ''20250101T000000Z''),
       (''Authorization'', ''AWS4-HMAC-SHA256 Credential=AKIA_PARAM'')]]"
proof -
  have s: "signed override_options = Some True"
    by (simp add: override_options_def)
  from signed_call_signs_once [OF s, of "mock_host (createMockResponse (JObj []) 200)"
      override_env "''AWSCognitoIdentityProviderService.AdminGetUser''"]
  show ?thesis
    by (simp add: mock_host_def stub_sign_def requestOptions_def resolved_credentials_def
        resolved_region_def resolved_accessKeyId_def resolved_secretAccessKey_def
        js_or_def truthy_def interpolate_def override_options_def override_env_def)
qed

text \<open>
  \<^bold>\<open>C7\<close>. Whatever response \<open>fetch\<close> resolves to, with whatever status, the outcome
  of the call is the outcome of that response's \<open>json()\<close>.
\<close>

theorem result_is_deserialized_body:
  assumes "(u, req) \<in> set (fetch_calls (calls (cognitoFetch h env target options)))"
    and "fetch h u req = Inr res"
  shows "outcome (cognitoFetch h env target options) = json res"
  using fetched_outcome [OF assms(1)] assms(2) by simp

text \<open>
  The theorem at the test "handles different HTTP status codes": a 400 response with an
  error-shaped body is the fulfilled result.
\<close>

theorem result_is_deserialized_body_witness:
  "outcome (cognitoFetch (mock_host (createMockResponse error_response 400))
       unset_env ''AWSCognitoIdentityProviderService.InitiateAuth'' unsigned_options) =
     Inr (JObj [(''__type'', JStr ''NotAuthorizedException''),
                (''message'', JStr ''Invalid credentials'')])"
proof -
  let ?h = "mock_host (createMockResponse error_response 400)"
  let ?t = "''AWSCognitoIdentityProviderService.InitiateAuth''"
  have sent: "(cognito_url (resolved_region unsigned_options unset_env),
               requestOptions ?h unset_env ?t unsigned_options)
              \<in> set (fetch_calls (calls (cognitoFetch ?h unset_env ?t unsigned_options)))"
    by (simp add: fetch_calls_cognitoFetch unsigned_options_def)
  have got: "fetch ?h (cognito_url (resolved_region unsigned_options unset_env))
               (requestOptions ?h unset_env ?t unsigned_options) =
             Inr \<lparr> status = 400, json = Inr error_response \<rparr>"
    by (simp add: mock_host_def mockFetch_def createMockResponse_def)
  from result_is_deserialized_body [OF sent got]
  show ?thesis by (simp add: error_response_def)
qed

text \<open>
  \<^bold>\<open>C8\<close>. When the call of \<open>fetch\<close> rejects with \<open>e\<close>, the function rejects with
  \<open>e\<close>; when it resolves to a response whose \<open>json()\<close> rejects with \<open>e\<close>, the function
  rejects with \<open>e\<close>. There is one call of \<open>fetch\<close> and no second attempt.
\<close>

theorem failures_reach_the_caller_unchanged:
  assumes "(u, req) \<in> set (fetch_calls (calls (cognitoFetch h env target options)))"
  shows "(fetch h u req = Inl e \<longrightarrow> outcome (cognitoFetch h env target options) = Inl e) \<and>
         (\<forall>res. fetch h u req = Inr res \<and> json res = Inl e \<longrightarrow>
            outcome (cognitoFetch h env target options) = Inl e) \<and>
         fetch_calls (calls (cognitoFetch h env target options)) = [(u, req)]"
proof -
  have one: "fetch_calls (calls (cognitoFetch h env target options)) = [(u, req)]"
    using assms
    by (cases "aws4_sign h (requestOptions h env target options) (resolved_credentials options env)")
       (auto simp: fetch_calls_cognitoFetch split: if_splits)
  from fetched_outcome [OF assms] one show ?thesis
    by simp
qed

text \<open>
  The theorem at the tests "handles fetch errors" and "handles JSON parsing errors".
\<close>

theorem failures_reach_the_caller_unchanged_witness:
  "outcome (cognitoFetch (mock_host (Inl ''Network error''))
       unset_env ''AWSCognitoIdentityProviderService.InitiateAuth'' unsigned_options) =
     Inl ''Network error'' \<and>
   outcome (cognitoFetch
       (mock_host (Inr \<lparr> status = 200, json = Inl ''SyntaxError: Unexpected token in JSON'' \<rparr>))
       unset_env ''AWSCognitoIdentityProviderService.InitiateAuth'' unsigned_options) =
     Inl ''SyntaxError: Unexpected token in JSON''"
proof -
  let ?t = "''AWSCognitoIdentityProviderService.InitiateAuth''"
  let ?u = "cognito_url (resolved_region unsigned_options unset_env)"
  have sent: "(?u, requestOptions (mock_host r) unset_env ?t unsigned_options)
              \<in> set (fetch_calls (calls (cognitoFetch (mock_host r) unset_env ?t unsigned_options)))"
    for r
    by (simp add: fetch_calls_cognitoFetch unsigned_options_def)
  have got: "fetch (mock_host r) v req = r" for r v req
    by (simp add: mock_host_def mockFetch_def)
  from failures_reach_the_caller_unchanged [OF sent, of "Inl ''Network error''" "''Network error''"]
    failures_reach_the_caller_unchanged [OF sent,
      of "Inr \<lparr> status = 200, json = Inl ''SyntaxError: Unexpected token in JSON'' \<rparr>"
         "''SyntaxError: Unexpected token in JSON''"]
  show ?thesis by (simp add: got)
qed

text \<open>
  \<^bold>\<open>C9\<close>. When the region resolves to \<open>undefined\<close>, the URL is
  \<open>https://cognito-idp.undefined.amazonaws.com/\<close>, and \<open>fetch\<close> is called with it (unless
  the call is signed and \<open>aws4.sign\<close> throws). The function raises no error of its own:
  when it rejects with \<open>e\<close>, then \<open>aws4.sign\<close> threw \<open>e\<close>, or \<open>fetch\<close> or the
  response's \<open>json()\<close> rejected with \<open>e\<close>.
\<close>

theorem undefined_region_is_sent:
  assumes "resolved_region options env = None"
  shows "url (requestOptions h env target options) = ''https://cognito-idp.undefined.amazonaws.com/'' \<and>
         map fst (fetch_calls (calls (cognitoFetch h env target options))) =
           (if signed options = Some True \<and>
               isl (aws4_sign h (requestOptions h env target options) (resolved_credentials options env))
            then [] else [''https://cognito-idp.undefined.amazonaws.com/'']) \<and>
         (\<forall>e. outcome (cognitoFetch h env target options) = Inl e \<longrightarrow>
            (signed options = Some True \<and>
             aws4_sign h (requestOptions h env target options) (resolved_credentials options env) = Inl e)
          \<or> (\<exists>u req. (u, req) \<in> set (fetch_calls (calls (cognitoFetch h env target options))) \<and>
                (fetch h u req = Inl e \<or> (\<exists>res. fetch h u req = Inr res \<and> json res = Inl e))))"
proof -
  have u: "cognito_url None = ''https://cognito-idp.undefined.amazonaws.com/''"
    by (simp add: cognito_url_def interpolate_def)
  have a: "url (requestOptions h env target options) = ''https://cognito-idp.undefined.amazonaws.com/''"
    unfolding url_requestOptions assms u ..
  have b: "map fst (fetch_calls (calls (cognitoFetch h env target options))) =
           (if signed options = Some True \<and>
               isl (aws4_sign h (requestOptions h env target options) (resolved_credentials options env))
            then [] else [''https://cognito-idp.undefined.amazonaws.com/''])"
    unfolding fetch_urls_cognitoFetch assms u ..
  from a b failure_origin [of h env target options] show ?thesis
    by blast
qed

text \<open>
  The theorem with no region in \<open>options\<close> and none in the environment: the request goes
  out and the call fulfils; with a transport that rejects, the rejection is the transport's.
\<close>

theorem undefined_region_is_sent_witness:
  "resolved_region body_only_options unset_env = None \<and>
   map fst (fetch_calls (calls (cognitoFetch (mock_host (createMockResponse (JObj []) 200))
       unset_env ''AWSCognitoIdentityProviderService.InitiateAuth'' body_only_options))) =
     [''https://cognito-idp.undefined.amazonaws.com/''] \<and>
   outcome (cognitoFetch (mock_host (createMockResponse (JObj []) 200))
       unset_env ''AWSCognitoIdentityProviderService.InitiateAuth'' body_only_options) = Inr (JObj []) \<and>
   outcome (cognitoFetch (mock_host (Inl ''Network error''))
       unset_env ''AWSCognitoIdentityProviderService.InitiateAuth'' body_only_options) =
     Inl ''Network error''"
proof -
  have r: "resolved_region body_only_options unset_env = None"
    by (simp add: resolved_region_def js_or_def truthy_def body_only_options_def unset_env_def)
  have u: "signed body_only_options \<noteq> Some True"
    by (simp add: body_only_options_def)
  have run: "outcome (cognitoFetch (mock_host x)
       unset_env ''AWSCognitoIdentityProviderService.InitiateAuth'' body_only_options) =
       (case x of Inl e \<Rightarrow> Inl e | Inr res \<Rightarrow> json res)" for x
    using u by (simp add: cognitoFetch_unsigned outcome_dispatch mock_host_def mockFetch_def)
  from undefined_region_is_sent [OF r, of "mock_host (createMockResponse (JObj []) 200)"
      "''AWSCognitoIdentityProviderService.InitiateAuth''"]
    undefined_region_is_sent [OF r, of "mock_host (Inl ''Network error'')"
      "''AWSCognitoIdentityProviderService.InitiateAuth''"]
  show ?thesis
    using r u by (simp add: run createMockResponse_def)
qed



end
